theory Spec2Isabelle
  imports Main "HOL-Library.Sublist"
begin

section \<open>Python exceptions\<close>

text \<open>
  The exceptions the runner scripts raise, catch or let through. \<open>SystemExit\<close> (raised by
  \<^verbatim>\<open>sys.exit\<close>) and \<open>KeyboardInterrupt\<close> derive from \<^verbatim>\<open>BaseException\<close> only, so a
  clause \<^verbatim>\<open>except Exception\<close> does not catch them; every other exception here is a
  subclass of \<^verbatim>\<open>Exception\<close>.
\<close>

datatype exn =
    InvalidSignature
  | OSError
  | FileExistsError
  | URLError
  | ValueError
  | ImportError string
  | NameError string
  | UnboundLocalError string
  | SystemExit nat
  | KeyboardInterrupt

fun is_Exception :: "exn \<Rightarrow> bool" where
  "is_Exception (SystemExit _) = False"
| "is_Exception KeyboardInterrupt = False"
| "is_Exception _ = True"

section \<open>The files the updater touches\<close>

text \<open>
  \<open>Live\<close> is \<^verbatim>\<open>BIN_DIR / "lightscope_core.py"\<close>, \<open>Backup t\<close> is
  \<^verbatim>\<open>UPDATES_DIR / f"lightscope_core_backup_{t}.py"\<close>, \<open>PublicKey\<close> is
  \<^verbatim>\<open>CONFIG_DIR / "lightscope-public.pem"\<close>, and \<open>TempCore\<close>, \<open>TempSig\<close> are the two
  files of the temporary directory of one \<^verbatim>\<open>download_update\<close> call. A file system maps
  each path to its contents, \<open>None\<close> when the file does not exist.
\<close>

datatype path = Live | Backup nat | PublicKey | TempCore | TempSig

type_synonym fs = "path \<Rightarrow> string option"

datatype platform = Debian | Windows

definition read_file :: "fs \<Rightarrow> path \<Rightarrow> exn + string" where
  "read_file s p = (case s p of None \<Rightarrow> Inl OSError | Some d \<Rightarrow> Inr d)"

text \<open>
  \<^verbatim>\<open>Path.rename\<close>: the source must exist; on POSIX an existing target file is replaced,
  on Windows an existing target raises \<^verbatim>\<open>FileExistsError\<close>.
\<close>

definition rename :: "platform \<Rightarrow> fs \<Rightarrow> path \<Rightarrow> path \<Rightarrow> exn + fs" where
  "rename pf s src dst =
     (case s src of
        None \<Rightarrow> Inl OSError
      | Some d \<Rightarrow>
          if pf = Windows \<and> s dst \<noteq> None then Inl FileExistsError
          else Inr (s(src := None, dst := Some d)))"

text \<open>
  \<^verbatim>\<open>shutil.copy2(src, dst)\<close> opens \<open>dst\<close> for writing, which creates it empty or truncates
  it, and then writes the bytes of \<open>src\<close> front to back. \<open>copy2_states\<close> lists the file
  systems this passes through: \<open>dst\<close> holds each prefix of the data in turn, the whole
  data last.
\<close>

definition copy2_states :: "fs \<Rightarrow> path \<Rightarrow> string \<Rightarrow> fs list" where
  "copy2_states s dst d = map (\<lambda>k. s(dst := Some (take k d))) [0..<Suc (length d)]"

definition rmtree_temp :: "fs \<Rightarrow> fs" where
  "rmtree_temp s = s(TempCore := None, TempSig := None)"

section \<open>SecureUpdater\<close>

text \<open>
  The \<^verbatim>\<open>cryptography\<close> package is outside the repository: \<open>load_pem_public_key\<close> parses
  the PEM bytes, \<open>None\<close> when it raises (\<^verbatim>\<open>ValueError\<close>, \<^verbatim>\<open>UnsupportedAlgorithm\<close>);
  \<open>pk_verify key signature data\<close> stands for
  \<^verbatim>\<open>key.verify(signature, data, PSS(MGF1(SHA256), MAX_LENGTH), SHA256)\<close>, which returns
  nothing or raises.
\<close>

record 'k crypto =
  load_pem_public_key :: "string \<Rightarrow> 'k option"
  pk_verify :: "'k \<Rightarrow> string \<Rightarrow> string \<Rightarrow> exn + unit"

record 'k updater =
  public_key :: "'k option"
  current_version :: "string option"

subsection \<open>load_current_version\<close>

text \<open>
  \<^verbatim>\<open>re.search(r'ls_version\s*=\s*["\']([^"\']+)["\']', content)\<close> on ASCII text. Every
  greedy loop of the pattern is followed by a character outside its class, so at each start
  position there is at most one way to match and no backtracking is needed.
\<close>

definition is_space :: "char \<Rightarrow> bool" where
  "is_space c = (c \<in> set [CHR 0x20, CHR 0x09, CHR 0x0A, CHR 0x0B, CHR 0x0C, CHR 0x0D,
                          CHR 0x1C, CHR 0x1D, CHR 0x1E, CHR 0x1F])"

definition is_quote :: "char \<Rightarrow> bool" where
  "is_quote c = (c = CHR 0x22 \<or> c = CHR 0x27)"

definition strip_prefix :: "string \<Rightarrow> string \<Rightarrow> string option" where
  "strip_prefix p xs = (if take (length p) xs = p then Some (drop (length p) xs) else None)"

definition match_here :: "string \<Rightarrow> string option" where
  "match_here xs =
     (case strip_prefix ''ls_version'' xs of
        None \<Rightarrow> None
      | Some r1 \<Rightarrow>
          (case dropWhile is_space r1 of
             [] \<Rightarrow> None
           | c # r2 \<Rightarrow>
               if c \<noteq> CHR ''='' then None
               else
                 (case dropWhile is_space r2 of
                    [] \<Rightarrow> None
                  | q # r3 \<Rightarrow>
                      if \<not> is_quote q then None
                      else
                        (let v = takeWhile (\<lambda>c. \<not> is_quote c) r3;
                             r4 = dropWhile (\<lambda>c. \<not> is_quote c) r3
                         in if v = [] \<or> r4 = [] then None else Some v))))"

fun re_search :: "string \<Rightarrow> string option" where
  "re_search [] = None"
| "re_search (c # cs) =
     (case match_here (c # cs) of Some v \<Rightarrow> Some v | None \<Rightarrow> re_search cs)"

text \<open>
  When the file is missing or no version line is found, \<^verbatim>\<open>self.current_version\<close> keeps
  the value it had.
\<close>

definition load_current_version :: "fs \<Rightarrow> 'k updater \<Rightarrow> 'k updater" where
  "load_current_version s u =
     (case s Live of
        None \<Rightarrow> u
      | Some content \<Rightarrow>
          (case re_search content of
             None \<Rightarrow> u
           | Some v \<Rightarrow> u\<lparr>current_version := Some v\<rparr>))"

subsection \<open>load_public_key\<close>

text \<open>
  An absent key file, and any \<^verbatim>\<open>Exception\<close> while reading or parsing it, leave
  \<^verbatim>\<open>self.public_key = None\<close>; the method logs an error and returns.
\<close>

definition load_public_key :: "'k crypto \<Rightarrow> fs \<Rightarrow> 'k updater \<Rightarrow> 'k updater" where
  "load_public_key lib s u =
     (case s PublicKey of
        None \<Rightarrow> u\<lparr>public_key := None\<rparr>
      | Some pem \<Rightarrow>
          (case load_pem_public_key lib pem of
             Some k \<Rightarrow> u\<lparr>public_key := Some k\<rparr>
           | None \<Rightarrow> u\<lparr>public_key := None\<rparr>))"

definition SecureUpdater :: "'k crypto \<Rightarrow> fs \<Rightarrow> 'k updater" where
  "SecureUpdater lib s =
     load_public_key lib s
       (load_current_version s \<lparr>public_key = None, current_version = None\<rparr>)"

subsection \<open>check_for_updates\<close>

text \<open>
  What \<^verbatim>\<open>urlopen\<close>, \<^verbatim>\<open>read\<close> and \<^verbatim>\<open>json.loads\<close> give for the version URL: a network
  error, a body that is not JSON, or a JSON object with the value of its \<open>version\<close> key
  (\<open>None\<close> when the key is missing). An empty version string is falsy.
\<close>

datatype http_response = NetworkError | BadJson | Json "string option"

definition check_for_updates :: "'k updater \<Rightarrow> http_response \<Rightarrow> bool" where
  "check_for_updates u r =
     (case r of
        NetworkError \<Rightarrow> False
      | BadJson \<Rightarrow> False
      | Json None \<Rightarrow> False
      | Json (Some latest_version) \<Rightarrow>
          if latest_version = [] then False
          else current_version u \<noteq> Some latest_version)"

subsection \<open>verify_signature\<close>

definition verify_signature ::
  "'k crypto \<Rightarrow> 'k updater \<Rightarrow> fs \<Rightarrow> path \<Rightarrow> path \<Rightarrow> exn + bool" where
  "verify_signature lib u s file_path signature_path =
     (case public_key u of
        None \<Rightarrow> Inr False
      | Some k \<Rightarrow>
          (case (case read_file s file_path of
                   Inl e \<Rightarrow> Inl e
                 | Inr file_data \<Rightarrow>
                     (case read_file s signature_path of
                        Inl e \<Rightarrow> Inl e
                      | Inr signature \<Rightarrow>
                          (case pk_verify lib k signature file_data of
                             Inl e \<Rightarrow> Inl e
                           | Inr _ \<Rightarrow> Inr True))) of
             Inr b \<Rightarrow> Inr b
           | Inl InvalidSignature \<Rightarrow> Inr False
           | Inl e \<Rightarrow> if is_Exception e then Inr False else Inl e))"

subsection \<open>download_update\<close>

text \<open>
  What the two \<^verbatim>\<open>urlretrieve\<close> calls fetch: the body of each URL, \<open>None\<close> when the
  download raises \<^verbatim>\<open>URLError\<close>.
\<close>

record downloads =
  core_body :: "string option"
  sig_body :: "string option"

text \<open>
  One call of \<^verbatim>\<open>download_update\<close>: what it returns or lets through, the updater object
  afterwards, every file system state from the call to the return in order (the state a
  crash or a power loss at that moment would leave on disk), and the error messages it logs.
\<close>

record 'k install_run =
  outcome :: "exn + bool"
  updater_after :: "'k updater"
  fs_states :: "fs list"
  messages :: "string list"

text \<open>
  An exception inside the \<^verbatim>\<open>try\<close> block: \<^verbatim>\<open>except Exception\<close> logs it and returns
  \<^verbatim>\<open>False\<close>; anything else leaves the method.
\<close>

definition raised :: "'k updater \<Rightarrow> fs list \<Rightarrow> exn \<Rightarrow> 'k install_run" where
  "raised u ss e =
     (if is_Exception e
      then \<lparr>outcome = Inr False, updater_after = u, fs_states = ss,
            messages = [''Error downloading update'']\<rparr>
      else \<lparr>outcome = Inl e, updater_after = u, fs_states = ss, messages = []\<rparr>)"

definition copy2 :: "fs \<Rightarrow> path \<Rightarrow> path \<Rightarrow> exn + fs list" where
  "copy2 s src dst =
     (case s src of None \<Rightarrow> Inl OSError | Some d \<Rightarrow> Inr (copy2_states s dst d))"

text \<open>
  \<open>now\<close> is \<^verbatim>\<open>int(time.time())\<close> at the backup step. The temporary directory is removed
  when the \<^verbatim>\<open>with\<close> block is left, on every path. \<^verbatim>\<open>os.chmod\<close> (Debian runner only)
  changes no contents and is not a separate state.
\<close>

definition download_update ::
  "platform \<Rightarrow> 'k crypto \<Rightarrow> downloads \<Rightarrow> nat \<Rightarrow> 'k updater \<Rightarrow> fs \<Rightarrow> 'k install_run" where
  "download_update pf lib net now u s0 =
     (case core_body net of
        None \<Rightarrow> raised u [s0, rmtree_temp s0] URLError
      | Some c \<Rightarrow>
          let s1 = s0(TempCore := Some c) in
          (case sig_body net of
             None \<Rightarrow> raised u [s0, s1, rmtree_temp s1] URLError
           | Some g \<Rightarrow>
               let s2 = s1(TempSig := Some g) in
               (case verify_signature lib u s2 TempCore TempSig of
                  Inl e \<Rightarrow> raised u [s0, s1, s2, rmtree_temp s2] e
                | Inr False \<Rightarrow>
                    \<lparr>outcome = Inr False, updater_after = u,
                     fs_states = [s0, s1, s2, rmtree_temp s2],
                     messages = [''Signature verification failed - update aborted'']\<rparr>
                | Inr True \<Rightarrow>
                    (case (if s2 Live \<noteq> None then rename pf s2 Live (Backup now) else Inr s2) of
                       Inl e \<Rightarrow> raised u [s0, s1, s2, rmtree_temp s2] e
                     | Inr s3 \<Rightarrow>
                         (case copy2 s3 TempCore Live of
                            Inl e \<Rightarrow> raised u [s0, s1, s2, s3, rmtree_temp s3] e
                          | Inr cs \<Rightarrow>
                              let s4 = last cs in
                              \<lparr>outcome = Inr True,
                               updater_after = load_current_version s4 u,
                               fs_states = [s0, s1, s2, s3] @ cs @ [rmtree_temp s4],
                               messages = []\<rparr>)))))"

section \<open>A small library instance for evaluating the model\<close>

text \<open>
  Keys are strings, a PEM file parses to its own text unless empty, and the signature of
  \<open>d\<close> under key \<open>k\<close> is \<open>k @ d\<close>. It is used only to run the definitions on concrete
  inputs.
\<close>

definition demo_crypto :: "string crypto" where
  "demo_crypto =
     \<lparr>load_pem_public_key = (\<lambda>pem. if pem = [] then None else Some pem),
      pk_verify = (\<lambda>k sg d. if sg = k @ d then Inr () else Inl InvalidSignature)\<rparr>"

definition version_line :: "string \<Rightarrow> string" where
  "version_line v = ''ls_version = '' @ [CHR 0x22] @ v @ [CHR 0x22]"

definition demo_fs :: fs where
  "demo_fs = (\<lambda>p. None)(Live := Some (version_line ''1.0.0''), PublicKey := Some ''K'')"

definition demo_net :: downloads where
  "demo_net = \<lparr>core_body = Some (version_line ''2.0.0''),
                sig_body = Some (''K'' @ version_line ''2.0.0'')\<rparr>"

definition demo_updater :: "string updater" where
  "demo_updater = \<lparr>public_key = Some ''K'', current_version = Some ''1.0.0''\<rparr>"

section \<open>Predicates on the live path\<close>

text \<open>
  \<open>live_intact s0 new s\<close>: in state \<open>s\<close> the live path is as it was in \<open>s0\<close> or holds the
  whole of \<open>new\<close>. \<open>mid_install now s0 new s\<close>: the live path is absent or holds a prefix of
  \<open>new\<close>, and what it held in \<open>s0\<close>, if anything, is whole at the backup path stamped
  \<open>now\<close>.
\<close>

definition live_intact :: "fs \<Rightarrow> string \<Rightarrow> fs \<Rightarrow> bool" where
  "live_intact s0 new s = (s Live = s0 Live \<or> s Live = Some new)"

definition mid_install :: "nat \<Rightarrow> fs \<Rightarrow> string \<Rightarrow> fs \<Rightarrow> bool" where
  "mid_install now s0 new s =
     ((case s Live of None \<Rightarrow> True | Some d \<Rightarrow> prefix d new)
      \<and> (case s0 Live of None \<Rightarrow> True | Some old \<Rightarrow> s (Backup now) = Some old))"

section \<open>The Debian supervisor\<close>

text \<open>
  The state the threads of the Debian runner share: the two \<^verbatim>\<open>threading.Event\<close> latches,
  whether \<^verbatim>\<open>'lightscope_core'\<close> is in \<^verbatim>\<open>sys.modules\<close>, and whether the thread running
  \<^verbatim>\<open>lightscope_run\<close> is alive.
\<close>

record runner =
  shutdown_event :: bool
  update_available_event :: bool
  sys_modules_core :: bool
  core_alive :: bool

text \<open>
  What the other threads and the signal handler do during one second of the main thread's
  \<^verbatim>\<open>time.sleep(1)\<close>: nothing; \<^verbatim>\<open>signal_handler\<close> runs (SIGTERM or SIGINT) and sets
  \<^verbatim>\<open>shutdown_event\<close>; the update checker has installed an update and sets
  \<^verbatim>\<open>update_available_event\<close>; \<^verbatim>\<open>lightscope_run\<close> returns; \<^verbatim>\<open>lightscope_run\<close> raises and
  \<^verbatim>\<open>run_core\<close> sets \<^verbatim>\<open>shutdown_event\<close>.
\<close>

datatype tick = Quiet | SigTerm | UpdateInstalled | CoreReturned | CoreRaised

fun apply_tick :: "tick \<Rightarrow> runner \<Rightarrow> runner" where
  "apply_tick Quiet g = g"
| "apply_tick SigTerm g = g\<lparr>shutdown_event := True\<rparr>"
| "apply_tick UpdateInstalled g = g\<lparr>update_available_event := True\<rparr>"
| "apply_tick CoreReturned g = g\<lparr>core_alive := False\<rparr>"
| "apply_tick CoreRaised g =
     (if core_alive g then g\<lparr>core_alive := False, shutdown_event := True\<rparr> else g)"

text \<open>
  One pass of the main loop runs against a \<open>cycle\<close>: the state of
  \<^verbatim>\<open>BIN_DIR / "lightscope_core.py"\<close> when \<^verbatim>\<open>load_lightscope_core\<close> is called (absent,
  present but raising an \<^verbatim>\<open>Exception\<close> when executed, or runnable), the seconds that pass
  while the core runs, and the seconds that pass during the backoff sleep.
\<close>

datatype core_file = Missing | Broken | Runnable

record cycle =
  core_file :: core_file
  run_ticks :: "tick list"
  sleep_ticks :: "tick list"

text \<open>
  \<^verbatim>\<open>load_lightscope_core\<close> returns \<^verbatim>\<open>False\<close>, \<^verbatim>\<open>True\<close> or the string \<^verbatim>\<open>"restart"\<close>. The
  observable steps of the process are \<open>action\<close>s: \<open>Backoff sleep_time slept\<close> is a backoff
  announced as \<open>sleep_time\<close> seconds that lasted \<open>slept\<close> seconds. A run ends with an exit
  code, or is \<open>StillRunning\<close> when the given cycles and seconds are used up.
\<close>

datatype load_result = RFalse | RTrue | RRestart

datatype action = NotifyReady | SpawnThread string | StartCore | Backoff nat nat

datatype ending = Exited nat | StillRunning

text \<open>
  The polling loop of \<^verbatim>\<open>load_lightscope_core\<close>:
  \<^verbatim>\<open>while core_thread.is_alive(): if shutdown: break; elif update: shutdown.set(); break;
  time.sleep(1)\<close>. \<open>None\<close>: the seconds are used up with the core still running.
\<close>

fun wait_loop :: "runner \<Rightarrow> tick list \<Rightarrow> (runner \<times> tick list) option" where
  "wait_loop g ts =
     (if \<not> core_alive g then Some (g, ts)
      else if shutdown_event g then Some (g, ts)
      else if update_available_event g then Some (g\<lparr>shutdown_event := True\<rparr>, ts)
      else (case ts of
              [] \<Rightarrow> None
            | t # ts' \<Rightarrow> wait_loop (apply_tick t g) ts'))"

text \<open>\<^verbatim>\<open>core_thread.join(timeout=30)\<close>: up to 30 more seconds while the thread is alive.\<close>

fun join_core :: "nat \<Rightarrow> runner \<Rightarrow> tick list \<Rightarrow> runner" where
  "join_core 0 g ts = g"
| "join_core (Suc n) g [] = g"
| "join_core (Suc n) g (t # ts) =
     (if \<not> core_alive g then g else join_core n (apply_tick t g) ts)"

text \<open>
  \<^verbatim>\<open>if 'lightscope_core' in sys.modules: importlib.reload(...) else: import lightscope_core\<close>.
  The \<^verbatim>\<open>import\<close> statement makes \<^verbatim>\<open>lightscope_core\<close> a local variable of the function,
  and only the \<^verbatim>\<open>else\<close> branch binds it. The first component tells whether the local name
  is bound afterwards.
\<close>

definition import_core :: "runner \<Rightarrow> bool \<times> runner" where
  "import_core g =
     (if sys_modules_core g then (False, g)
      else (True, g\<lparr>sys_modules_core := True\<rparr>))"

text \<open>
  A missing file returns \<^verbatim>\<open>False\<close>; an exception while importing or reloading is caught by
  \<^verbatim>\<open>except Exception\<close> and returns \<^verbatim>\<open>False\<close>. The next statement that runs,
  \<^verbatim>\<open>lightscope_core.runner_shutdown_event = shutdown_event\<close>, reads the local name: unbound,
  it raises \<^verbatim>\<open>UnboundLocalError\<close>, which the same clause turns into \<^verbatim>\<open>False\<close>. Otherwise
  the core thread is started, polled and joined, and the result is \<^verbatim>\<open>"restart"\<close> when
  \<^verbatim>\<open>update_available_event\<close> is set, \<^verbatim>\<open>True\<close> when not.
\<close>

definition load_lightscope_core ::
  "runner \<Rightarrow> cycle \<Rightarrow> (load_result \<times> runner \<times> action list) option" where
  "load_lightscope_core g c =
     (case core_file c of
        Missing \<Rightarrow> Some (RFalse, g, [])
      | Broken \<Rightarrow> Some (RFalse, g, [])
      | Runnable \<Rightarrow>
          (case import_core g of
             (False, g1) \<Rightarrow> Some (RFalse, g1, [])
           | (True, g1) \<Rightarrow>
               (case wait_loop (g1\<lparr>core_alive := True\<rparr>) (run_ticks c) of
                  None \<Rightarrow> None
                | Some (g2, ts) \<Rightarrow>
                    let g3 = join_core 30 g2 ts in
                    Some (if update_available_event g3 then RRestart else RTrue,
                          g3, [StartCore]))))"

text \<open>
  \<^verbatim>\<open>for _ in range(sleep_time): if shutdown_event.is_set(): break; time.sleep(1)\<close>, with the
  number of seconds slept. Seconds beyond the given ones are quiet.
\<close>

fun backoff_sleep :: "nat \<Rightarrow> runner \<Rightarrow> tick list \<Rightarrow> nat \<times> runner" where
  "backoff_sleep 0 g ts = (0, g)"
| "backoff_sleep (Suc n) g ts =
     (if shutdown_event g then (0, g)
      else (case ts of
              [] \<Rightarrow> (case backoff_sleep n g [] of (k, g') \<Rightarrow> (Suc k, g'))
            | t # ts' \<Rightarrow> (case backoff_sleep n (apply_tick t g) ts' of (k, g') \<Rightarrow> (Suc k, g'))))"

subsection \<open>main\<close>

definition max_consecutive_failures :: nat where
  "max_consecutive_failures = 5"

record main_run =
  actions :: "action list"
  ending :: ending
  runner_after :: runner

definition after :: "action list \<Rightarrow> main_run \<Rightarrow> main_run" where
  "after as r = r\<lparr>actions := as @ actions r\<rparr>"

text \<open>
  \<^verbatim>\<open>while not shutdown_event.is_set(): result = load_lightscope_core() ...\<close>. After the loop
  \<^verbatim>\<open>main\<close> sets \<^verbatim>\<open>shutdown_event\<close>, joins the threads and returns: exit code 0.
  \<^verbatim>\<open>sys.exit(1)\<close> raises \<^verbatim>\<open>SystemExit\<close>, which no clause of \<^verbatim>\<open>main\<close> catches.
\<close>

fun main_loop :: "nat \<Rightarrow> runner \<Rightarrow> cycle list \<Rightarrow> main_run" where
  "main_loop consecutive_failures g [] =
     (if shutdown_event g
      then \<lparr>actions = [], ending = Exited 0, runner_after = g\<rparr>
      else \<lparr>actions = [], ending = StillRunning, runner_after = g\<rparr>)"
| "main_loop consecutive_failures g (c # cs) =
     (if shutdown_event g
      then \<lparr>actions = [], ending = Exited 0, runner_after = g\<rparr>
      else
        (case load_lightscope_core g c of
           None \<Rightarrow> \<lparr>actions = [StartCore], ending = StillRunning, runner_after = g\<rparr>
         | Some (RRestart, g1, as) \<Rightarrow>
             after as (main_loop 0
               (g1\<lparr>update_available_event := False, shutdown_event := False\<rparr>) cs)
         | Some (RTrue, g1, as) \<Rightarrow>
             \<lparr>actions = as, ending = Exited 0, runner_after = g1\<lparr>shutdown_event := True\<rparr>\<rparr>
         | Some (RFalse, g1, as) \<Rightarrow>
             (let n = consecutive_failures + 1 in
              if n \<ge> max_consecutive_failures
              then \<lparr>actions = as, ending = Exited 1, runner_after = g1\<rparr>
              else
                (let sleep_time = min (10 * 2 ^ (n - 1)) 60 in
                 case backoff_sleep sleep_time g1 (sleep_ticks c) of
                   (slept, g2) \<Rightarrow>
                     after (as @ [Backoff sleep_time slept]) (main_loop n g2 cs)))))"


text \<open>
  \<^verbatim>\<open>main\<close>: create the updater, notify readiness, check for an update once and install it,
  start the two background threads, run the loop. \<open>response\<close>, \<open>net\<close> and \<open>now\<close> are what
  the start-up check and download see.
\<close>

record 'k main_result =
  started_updater :: "'k updater"
  started_fs :: fs
  supervision :: main_run

definition runner0 :: runner where
  "runner0 = \<lparr>shutdown_event = False, update_available_event = False,
              sys_modules_core = False, core_alive = False\<rparr>"

definition supervise :: "'k updater \<Rightarrow> fs \<Rightarrow> cycle list \<Rightarrow> 'k main_result" where
  "supervise u s cycles =
     \<lparr>started_updater = u, started_fs = s,
      supervision =
        after [NotifyReady, SpawnThread ''Update-Checker'', SpawnThread ''Watchdog'']
          (main_loop 0 runner0 cycles)\<rparr>"

definition stopped :: "'k updater \<Rightarrow> fs \<Rightarrow> nat \<Rightarrow> 'k main_result" where
  "stopped u s code =
     \<lparr>started_updater = u, started_fs = s,
      supervision = \<lparr>actions = [NotifyReady], ending = Exited code, runner_after = runner0\<rparr>\<rparr>"

definition main ::
  "'k crypto \<Rightarrow> fs \<Rightarrow> http_response \<Rightarrow> downloads \<Rightarrow> nat \<Rightarrow> cycle list \<Rightarrow> 'k main_result" where
  "main lib s0 response net now cycles =
     (let updater = SecureUpdater lib s0 in
      if check_for_updates updater response
      then
        (let r = download_update Debian lib net now updater s0 in
         case outcome r of
           Inr _ \<Rightarrow> supervise (updater_after r) (last (fs_states r)) cycles
         | Inl KeyboardInterrupt \<Rightarrow> stopped (updater_after r) (last (fs_states r)) 0
         | Inl (SystemExit code) \<Rightarrow> stopped (updater_after r) (last (fs_states r)) code
         | Inl _ \<Rightarrow> stopped (updater_after r) (last (fs_states r)) 1)
      else supervise updater s0 cycles)"

section \<open>update_checker_thread\<close>

text \<open>
  One pass of the thread's \<^verbatim>\<open>while not shutdown_event.is_set()\<close> loop sees: the latch at the
  loop test, \<^verbatim>\<open>time.time()\<close>, the server's answer, the downloads, and the time stamp of the
  backup. The thread leaves the loop on \<^verbatim>\<open>break\<close> right after
  \<^verbatim>\<open>update_available_event.set()\<close>.
\<close>

record check_env =
  shutdown_seen :: bool
  current_time :: nat
  answer :: http_response
  fetched :: downloads
  backup_stamp :: nat

datatype checker_action = Checked | Installed | InstallFailed

record 'k checker_run =
  checker_actions :: "checker_action list"
  thread_exited :: bool
  update_signalled :: bool
  checker_updater :: "'k updater"
  checker_fs :: fs

definition update_interval :: nat where
  "update_interval = 60 * 60"

definition did :: "checker_action list \<Rightarrow> 'k checker_run \<Rightarrow> 'k checker_run" where
  "did as r = r\<lparr>checker_actions := as @ checker_actions r\<rparr>"

fun update_checker_loop ::
  "'k crypto \<Rightarrow> nat \<Rightarrow> 'k updater \<Rightarrow> fs \<Rightarrow> check_env list \<Rightarrow> 'k checker_run" where
  "update_checker_loop lib last_update_check updater s [] =
     \<lparr>checker_actions = [], thread_exited = False, update_signalled = False,
      checker_updater = updater, checker_fs = s\<rparr>"
| "update_checker_loop lib last_update_check updater s (e # es) =
     (if shutdown_seen e
      then \<lparr>checker_actions = [], thread_exited = True, update_signalled = False,
            checker_updater = updater, checker_fs = s\<rparr>
      else if current_time e - last_update_check > update_interval
      then
        (if check_for_updates updater (answer e)
         then
           (let r = download_update Debian lib (fetched e) (backup_stamp e) updater s in
            case outcome r of
              Inr True \<Rightarrow>
                \<lparr>checker_actions = [Checked, Installed], thread_exited = True,
                 update_signalled = True, checker_updater = updater_after r,
                 checker_fs = last (fs_states r)\<rparr>
            | Inr False \<Rightarrow>
                did [Checked, InstallFailed]
                  (update_checker_loop lib (current_time e) (updater_after r)
                     (last (fs_states r)) es)
            | Inl _ \<Rightarrow>
                \<lparr>checker_actions = [Checked, InstallFailed], thread_exited = True,
                 update_signalled = False, checker_updater = updater_after r,
                 checker_fs = last (fs_states r)\<rparr>)
         else did [Checked] (update_checker_loop lib (current_time e) updater s es))
      else update_checker_loop lib last_update_check updater s es)"

definition update_checker_thread ::
  "'k crypto \<Rightarrow> nat \<Rightarrow> 'k updater \<Rightarrow> fs \<Rightarrow> check_env list \<Rightarrow> 'k checker_run" where
  "update_checker_thread lib started updater s es = update_checker_loop lib started updater s es"

section \<open>Loading the Debian runner module\<close>

text \<open>
  Name resolution while the module body runs top to bottom. \<open>Import m names\<close> binds
  \<open>names\<close> when module \<open>m\<close> can be imported and raises \<^verbatim>\<open>ImportError\<close> when not;
  \<open>Assign x reads\<close> and \<open>Expr reads\<close> evaluate an expression that reads the global names
  \<open>reads\<close>, raising \<^verbatim>\<open>NameError\<close> at the first unbound one; \<open>Def x\<close> is a \<^verbatim>\<open>def\<close> or
  \<^verbatim>\<open>class\<close> statement, whose body does not run. The result is the exception that stopped
  the module, if any, with the names bound so far.
\<close>

datatype simple =
    Import string "string list"
  | Assign string "string list"
  | Expr "string list"
  | Def string

datatype stmt = Simple simple | TryExceptImportError "simple list" "simple list"

definition unbound :: "string list \<Rightarrow> string list \<Rightarrow> string option" where
  "unbound ns reads = find (\<lambda>x. x \<notin> set ns) reads"

fun exec_simple :: "(string \<Rightarrow> bool) \<Rightarrow> simple \<Rightarrow> string list \<Rightarrow> exn + string list" where
  "exec_simple avail (Import m names) ns =
     (if avail m then Inr (names @ ns) else Inl (ImportError m))"
| "exec_simple avail (Assign x reads) ns =
     (case unbound ns reads of Some y \<Rightarrow> Inl (NameError y) | None \<Rightarrow> Inr (x # ns))"
| "exec_simple avail (Expr reads) ns =
     (case unbound ns reads of Some y \<Rightarrow> Inl (NameError y) | None \<Rightarrow> Inr ns)"
| "exec_simple avail (Def x) ns = Inr (x # ns)"

fun exec_simples ::
  "(string \<Rightarrow> bool) \<Rightarrow> simple list \<Rightarrow> string list \<Rightarrow> exn option \<times> string list" where
  "exec_simples avail [] ns = (None, ns)"
| "exec_simples avail (c # cs) ns =
     (case exec_simple avail c ns of
        Inl e \<Rightarrow> (Some e, ns)
      | Inr ns' \<Rightarrow> exec_simples avail cs ns')"

fun is_ImportError :: "exn \<Rightarrow> bool" where
  "is_ImportError (ImportError _) = True"
| "is_ImportError _ = False"

fun exec_module ::
  "(string \<Rightarrow> bool) \<Rightarrow> stmt list \<Rightarrow> string list \<Rightarrow> exn option \<times> string list" where
  "exec_module avail [] ns = (None, ns)"
| "exec_module avail (Simple c # rest) ns =
     (case exec_simple avail c ns of
        Inl e \<Rightarrow> (Some e, ns)
      | Inr ns' \<Rightarrow> exec_module avail rest ns')"
| "exec_module avail (TryExceptImportError body handler # rest) ns =
     (case exec_simples avail body ns of
        (None, ns1) \<Rightarrow> exec_module avail rest ns1
      | (Some e, ns1) \<Rightarrow>
          if is_ImportError e
          then (case exec_simples avail handler ns1 of
                  (None, ns2) \<Rightarrow> exec_module avail rest ns2
                | (Some e', ns2) \<Rightarrow> (Some e', ns2))
          else (Some e, ns1))"

text \<open>
  The top-level statements of \<^verbatim>\<open>lightscope-runner.py\<close> in order, each with the global
  names it reads; \<^verbatim>\<open>__name__\<close> and the builtin \<^verbatim>\<open>print\<close> are bound from the start.
\<close>

definition builtins :: "string list" where
  "builtins = [''__name__'', ''print'']"

definition lightscope_runner :: "stmt list" where
  "lightscope_runner =
     [Simple (Import ''os'' [''os'']),
      Simple (Import ''sys'' [''sys'']),
      Simple (Import ''time'' [''time'']),
      Simple (Import ''json'' [''json'']),
      Simple (Import ''hashlib'' [''hashlib'']),
      Simple (Import ''logging'' [''logging'']),
      Simple (Import ''tempfile'' [''tempfile'']),
      Simple (Import ''subprocess'' [''subprocess'']),
      Simple (Import ''urllib.request'' [''urllib'']),
      Simple (Import ''urllib.error'' [''urllib'']),
      Simple (Import ''threading'' [''threading'']),
      Simple (Import ''signal'' [''signal'']),
      Simple (Import ''pathlib'' [''Path'']),
      Simple (Import ''cryptography.hazmat.primitives'' [''hashes'', ''serialization'']),
      Simple (Import ''cryptography.hazmat.primitives.asymmetric'' [''rsa'', ''padding'']),
      Simple (Import ''cryptography.exceptions'' [''InvalidSignature'']),
      TryExceptImportError
        [Import ''systemd.daemon'' [''systemd''], Assign ''SYSTEMD_AVAILABLE'' []]
        [Assign ''SYSTEMD_AVAILABLE'' [], Expr [''logger'']],
      Simple (Assign ''LIGHTSCOPE_HOME'' [''Path'']),
      Simple (Assign ''CONFIG_DIR'' [''LIGHTSCOPE_HOME'']),
      Simple (Assign ''UPDATES_DIR'' [''LIGHTSCOPE_HOME'']),
      Simple (Assign ''LOGS_DIR'' [''LIGHTSCOPE_HOME'']),
      Simple (Assign ''BIN_DIR'' [''LIGHTSCOPE_HOME'']),
      Simple (Assign ''runner_version'' []),
      Simple (Expr [''print'', ''runner_version'']),
      Simple (Assign ''UPDATE_CHECK_URL'' []),
      Simple (Assign ''DOWNLOAD_URL_BASE'' []),
      Simple (Expr [''logging'', ''logging'', ''logging'', ''LOGS_DIR'', ''logging'']),
      Simple (Assign ''logger'' [''logging'']),
      Simple (Assign ''shutdown_event'' [''threading'']),
      Simple (Assign ''update_available_event'' [''threading'']),
      Simple (Assign ''lightscope_process'' []),
      Simple (Def ''SecureUpdater''),
      Simple (Def ''notify_systemd_watchdog''),
      Simple (Def ''notify_systemd_ready''),
      Simple (Def ''ensure_directories''),
      Simple (Def ''update_checker_thread''),
      Simple (Def ''watchdog_thread''),
      Simple (Def ''signal_handler''),
      Simple (Def ''load_lightscope_core''),
      Simple (Def ''main''),
      Simple (Expr [''__name__'', ''main''])]"

section \<open>Inputs for evaluating the supervisor\<close>

definition all_but_systemd :: "string \<Rightarrow> bool" where
  "all_but_systemd m = (m \<noteq> ''systemd.daemon'')"

definition failing :: cycle where
  "failing = \<lparr>core_file = Missing, run_ticks = [], sleep_ticks = []\<rparr>"


definition running :: "tick list \<Rightarrow> cycle" where
  "running ts = \<lparr>core_file = Runnable, run_ticks = ts, sleep_ticks = []\<rparr>"


section \<open>Properties of the updater\<close>

lemma raised_simps [simp]:
  "fs_states (raised u ss e) = ss" "updater_after (raised u ss e) = u"
  "outcome (raised u ss e) \<noteq> Inr True"
  by (simp_all add: raised_def)

lemma set_copy2_states:
  "set (copy2_states s3 dst d) = (\<lambda>k. s3(dst := Some (take k d))) ` {..length d}"
  unfolding copy2_states_def
  by (simp only: set_map set_upt atLeast0LessThan lessThan_Suc_atMost)

lemma copy2_states_last: "last (copy2_states s3 dst d) = s3(dst := Some d)"
  by (simp add: copy2_states_def last_map)

lemma demo_only_Exception:
  "\<forall>k sg d e. pk_verify demo_crypto k sg d = Inl e \<longrightarrow> is_Exception e"
  by (simp add: demo_crypto_def)

text \<open>
  Claim C3. Whatever the payload file, the signature file and the key state,
  \<^verbatim>\<open>verify_signature\<close> returns a boolean and raises nothing, given that the library's
  \<^verbatim>\<open>verify\<close> raises only subclasses of \<^verbatim>\<open>Exception\<close>. It returns \<^verbatim>\<open>False\<close> when no
  public key was loaded, when the library rejects the signature for the payload under the
  key (malformed signature, wrong key, digest mismatch), and when either file cannot be read.
\<close>

theorem verify_signature_total:
  assumes "\<forall>k sg d e. pk_verify lib k sg d = Inl e \<longrightarrow> is_Exception e"
  shows "(\<exists>b. verify_signature lib u s file_path signature_path = Inr b)
       \<and> (public_key u = None \<longrightarrow> verify_signature lib u s file_path signature_path = Inr False)
       \<and> (\<forall>k file_data signature.
             public_key u = Some k \<and> s file_path = Some file_data
             \<and> s signature_path = Some signature
             \<and> pk_verify lib k signature file_data \<noteq> Inr ()
             \<longrightarrow> verify_signature lib u s file_path signature_path = Inr False)
       \<and> (s file_path = None \<or> s signature_path = None
             \<longrightarrow> verify_signature lib u s file_path signature_path = Inr False)"
proof -
  have lib_exn: "is_Exception e" if "pk_verify lib k sg d = Inl e" for k sg d e
    using assms that by blast
  show ?thesis
    by (auto simp: verify_signature_def read_file_def
             split: option.splits sum.splits exn.splits dest: lib_exn)
qed

text \<open>
  The theorem at a concrete library: no key loaded, a signature that does not fit the
  payload, and, for contrast, the fitting signature.
\<close>

theorem verify_signature_total_witness:
  "verify_signature demo_crypto \<lparr>public_key = None, current_version = None\<rparr>
        ((\<lambda>p. None)(TempCore := Some ''data'', TempSig := Some ''Kdata'')) TempCore TempSig
       = Inr False
   \<and> verify_signature demo_crypto \<lparr>public_key = Some ''K'', current_version = None\<rparr>
        ((\<lambda>p. None)(TempCore := Some ''data'', TempSig := Some ''Kdatb'')) TempCore TempSig
       = Inr False
   \<and> verify_signature demo_crypto \<lparr>public_key = Some ''K'', current_version = None\<rparr>
        ((\<lambda>p. None)(TempCore := Some ''data'', TempSig := Some ''Kdata'')) TempCore TempSig
       = Inr True"
  using verify_signature_total [OF demo_only_Exception,
      of "\<lparr>public_key = None, current_version = None\<rparr>"
         "(\<lambda>p. None)(TempCore := Some ''data'', TempSig := Some ''Kdata'')" TempCore TempSig]
    verify_signature_total [OF demo_only_Exception,
      of "\<lparr>public_key = Some ''K'', current_version = None\<rparr>"
         "(\<lambda>p. None)(TempCore := Some ''data'', TempSig := Some ''Kdatb'')" TempCore TempSig]
  by (simp add: demo_crypto_def verify_signature_def read_file_def)

text \<open>
  Claim C2. When the downloaded artifact and signature fail verification,
  \<^verbatim>\<open>download_update\<close> returns \<^verbatim>\<open>False\<close>, logs that signature verification failed and
  the update was aborted, leaves the updater object as it was, and in every state from the
  call to the return the live path and every backup path hold what they held before.
\<close>

theorem download_update_signature_invalid:
  assumes "core_body net = Some c" and "sig_body net = Some g"
    and "verify_signature lib u (s0(TempCore := Some c, TempSig := Some g)) TempCore TempSig
           = Inr False"
  shows "outcome (download_update pf lib net now u s0) = Inr False
       \<and> messages (download_update pf lib net now u s0)
           = [''Signature verification failed - update aborted'']
       \<and> updater_after (download_update pf lib net now u s0) = u
       \<and> (\<forall>s \<in> set (fs_states (download_update pf lib net now u s0)).
             s Live = s0 Live \<and> (\<forall>t. s (Backup t) = s0 (Backup t)))"
  using assms by (simp add: download_update_def rmtree_temp_def Let_def)

text \<open>A forged signature for version 2.0.0 against an installed 1.0.0.\<close>

theorem download_update_signature_invalid_witness:
  "outcome (download_update Debian demo_crypto (demo_net\<lparr>sig_body := Some ''forged''\<rparr>) 7
              demo_updater demo_fs) = Inr False
   \<and> last (fs_states (download_update Debian demo_crypto
              (demo_net\<lparr>sig_body := Some ''forged''\<rparr>) 7 demo_updater demo_fs)) Live
       = Some (version_line ''1.0.0'')
   \<and> last (fs_states (download_update Debian demo_crypto
              (demo_net\<lparr>sig_body := Some ''forged''\<rparr>) 7 demo_updater demo_fs)) (Backup 7)
       = None"
  using download_update_signature_invalid [of "demo_net\<lparr>sig_body := Some ''forged''\<rparr>"
      "version_line ''2.0.0''" "''forged''" demo_crypto demo_updater demo_fs Debian 7]
  by (simp add: demo_net_def demo_updater_def demo_fs_def demo_crypto_def verify_signature_def
        read_file_def download_update_def rmtree_temp_def version_line_def Let_def)

text \<open>
  No state of a call differs from the initial one at the live path, and no call returns
  \<^verbatim>\<open>True\<close>, unless \<^verbatim>\<open>verify_signature\<close> returned \<^verbatim>\<open>True\<close> for the downloaded pair.
\<close>

lemma download_update_needs_verify:
  assumes "s \<in> set (fs_states (download_update pf lib net now u s0))"
    and "s Live \<noteq> s0 Live \<or> outcome (download_update pf lib net now u s0) = Inr True"
  shows "\<exists>c g. core_body net = Some c \<and> sig_body net = Some g
       \<and> verify_signature lib u (s0(TempCore := Some c, TempSig := Some g)) TempCore TempSig
           = Inr True"
  using assms
  by (auto simp: download_update_def rmtree_temp_def Let_def raised_def
           split: option.splits sum.splits bool.splits if_splits)

text \<open>
  Claim C1, as stated, fails. A successful install of version 2.0.0 over an installed 1.0.0
  passes through states in which the live path holds neither the whole old artifact nor the
  whole new one: after the backup rename the live path is absent, and during the copy it
  holds a proper prefix of the new artifact.
\<close>

theorem download_update_live_absent:
  "outcome (download_update Debian demo_crypto demo_net 7 demo_updater demo_fs) = Inr True
   \<and> \<not> list_all (live_intact demo_fs (version_line ''2.0.0''))
         (fs_states (download_update Debian demo_crypto demo_net 7 demo_updater demo_fs))"
  by (simp add: download_update_def demo_net_def demo_updater_def demo_fs_def demo_crypto_def
      verify_signature_def read_file_def rename_def copy2_def Let_def live_intact_def
      copy2_states_def version_line_def)

text \<open>
  Claim C1, amended. In every state of a \<^verbatim>\<open>download_update\<close> call the live path either
  holds what it held before the call, or the downloaded artifact has passed verification,
  the live path is absent or holds a prefix of it (the whole of it at the end of the copy),
  and the complete pre-install artifact, if there was one, is at the backup path stamped
  with the time of the call. A call that returns \<^verbatim>\<open>True\<close> ends with the whole new
  artifact at the live path.
\<close>

theorem download_update_live_states:
  "(\<forall>s \<in> set (fs_states (download_update pf lib net now u s0)).
      s Live = s0 Live
      \<or> (\<exists>new g. core_body net = Some new \<and> sig_body net = Some g
            \<and> verify_signature lib u (s0(TempCore := Some new, TempSig := Some g))
                 TempCore TempSig = Inr True
            \<and> mid_install now s0 new s))
   \<and> (outcome (download_update pf lib net now u s0) = Inr True
        \<longrightarrow> (\<exists>new. core_body net = Some new
               \<and> last (fs_states (download_update pf lib net now u s0)) Live = Some new))"
proof (intro conjI ballI impI)
  fix s
  assume s: "s \<in> set (fs_states (download_update pf lib net now u s0))"
  show "s Live = s0 Live
      \<or> (\<exists>new g. core_body net = Some new \<and> sig_body net = Some g
            \<and> verify_signature lib u (s0(TempCore := Some new, TempSig := Some g))
                 TempCore TempSig = Inr True
            \<and> mid_install now s0 new s)"
  proof (cases "s Live = s0 Live")
    case True
    then show ?thesis by simp
  next
    case False
    with download_update_needs_verify [OF s]
    obtain c g where c: "core_body net = Some c" and g: "sig_body net = Some g"
      and v: "verify_signature lib u (s0(TempCore := Some c, TempSig := Some g))
                TempCore TempSig = Inr True"
      by blast
    have "mid_install now s0 c s"
      using s False c g v
      by (auto simp: download_update_def rmtree_temp_def Let_def raised_def rename_def
            copy2_def set_copy2_states copy2_states_last mid_install_def take_is_prefix
            split: option.splits sum.splits if_splits)
    with c g v show ?thesis by blast
  qed
next
  assume "outcome (download_update pf lib net now u s0) = Inr True"
  then show "\<exists>new. core_body net = Some new
       \<and> last (fs_states (download_update pf lib net now u s0)) Live = Some new"
    by (auto simp: download_update_def rmtree_temp_def Let_def raised_def rename_def
          copy2_def copy2_states_last
          split: option.splits sum.splits bool.splits if_splits)
qed

text \<open>
  The amended claim at the install of 2.0.0 over 1.0.0: the fourth state has the live path
  absent and the old artifact at the backup path, the last state has the new artifact live.
\<close>

theorem download_update_live_states_witness:
  "(fs_states (download_update Debian demo_crypto demo_net 7 demo_updater demo_fs) ! 3) Live
     = None
   \<and> mid_install 7 demo_fs (version_line ''2.0.0'')
       (fs_states (download_update Debian demo_crypto demo_net 7 demo_updater demo_fs) ! 3)
   \<and> last (fs_states (download_update Debian demo_crypto demo_net 7 demo_updater demo_fs)) Live
       = Some (version_line ''2.0.0'')
   \<and> last (fs_states (download_update Debian demo_crypto demo_net 7 demo_updater demo_fs))
         (Backup 7) = Some (version_line ''1.0.0'')"
  using download_update_live_states [of Debian demo_crypto demo_net 7 demo_updater demo_fs]
  by (simp add: download_update_def demo_net_def demo_updater_def demo_fs_def demo_crypto_def
      verify_signature_def read_file_def rename_def copy2_def Let_def mid_install_def
      copy2_states_def version_line_def rmtree_temp_def last_map)

section \<open>Properties of the supervisor\<close>

lemma load_not_Runnable:
  "core_file c \<noteq> Runnable \<Longrightarrow> load_lightscope_core g c = Some (RFalse, g, [])"
  by (cases "core_file c") (simp_all add: load_lightscope_core_def)

lemma apply_tick_quiet:
  "t \<noteq> SigTerm \<Longrightarrow> \<not> core_alive g \<Longrightarrow> \<not> shutdown_event g \<Longrightarrow>
   \<not> core_alive (apply_tick t g) \<and> \<not> shutdown_event (apply_tick t g)"
  by (cases t) simp_all




lemma actions_after [simp]: "actions (after as r) = as @ actions r"
  and ending_after [simp]: "ending (after as r) = ending r"
  and runner_after_after [simp]: "runner_after (after as r) = runner_after r"
  by (simp_all add: after_def)





lemma apply_tick_SigTerm_free:
  "t \<noteq> SigTerm \<Longrightarrow> \<not> core_alive g \<Longrightarrow> shutdown_event (apply_tick t g) = shutdown_event g"
  by (cases t) simp_all

lemma backoff_sleep_interrupted:
  "\<not> shutdown_event g \<Longrightarrow> \<not> core_alive g \<Longrightarrow> SigTerm \<notin> set pre \<Longrightarrow> length pre < n \<Longrightarrow>
   fst (backoff_sleep n g (pre @ SigTerm # post)) = Suc (length pre)
   \<and> shutdown_event (snd (backoff_sleep n g (pre @ SigTerm # post)))"
proof (induction n arbitrary: g pre)
  case 0
  then show ?case by simp
next
  case (Suc n)
  show ?case
  proof (cases pre)
    case Nil
    with Suc.prems show ?thesis
      by (cases n) (auto split: prod.splits)
  next
    case (Cons t pre')
    with Suc.prems have t: "t \<noteq> SigTerm" "SigTerm \<notin> set pre'" "length pre' < n" by auto
    with Suc.IH [of "apply_tick t g" pre'] apply_tick_quiet [of t g] Suc.prems Cons
    show ?thesis by (auto split: prod.splits)
  qed
qed

text \<open>
  Claim C5. In the Debian runner, a shutdown signal that arrives during a backoff sleep, in
  the second after \<open>length pre\<close> quiet seconds, ends the sleep at the end of that second:
  the loop has slept \<open>length pre + 1\<close> seconds instead of the announced delay. The main
  loop then ends, the process exits with code 0, and the core is not started again,
  whatever cycles would follow.
\<close>

theorem shutdown_during_backoff:
  assumes "\<not> shutdown_event g" and "\<not> core_alive g" and "core_file c \<noteq> Runnable"
    and "Suc n < max_consecutive_failures"
    and "sleep_ticks c = pre @ SigTerm # post" and "SigTerm \<notin> set pre"
    and "length pre < min (10 * 2 ^ n) 60"
  shows "actions (main_loop n g (c # rest))
           = [Backoff (min (10 * 2 ^ n) 60) (Suc (length pre))]
       \<and> ending (main_loop n g (c # rest)) = Exited 0
       \<and> shutdown_event (runner_after (main_loop n g (c # rest)))"
proof -
  let ?st = "min (10 * 2 ^ n) (60::nat)"
  obtain k g' where b: "backoff_sleep ?st g (sleep_ticks c) = (k, g')"
    by (cases "backoff_sleep ?st g (sleep_ticks c)")
  from backoff_sleep_interrupted [OF assms(1,2,6,7), of post] b assms(5)
  have k: "k = Suc (length pre)" and g': "shutdown_event g'" by simp_all
  have "main_loop n g (c # rest) = after [Backoff ?st k] (main_loop (Suc n) g' rest)"
    using assms b by (simp add: load_not_Runnable Let_def)
  moreover have "main_loop (Suc n) g' rest = \<lparr>actions = [], ending = Exited 0, runner_after = g'\<rparr>"
    using g' by (cases rest) simp_all
  ultimately show ?thesis using k g' by simp
qed

text \<open>A signal in the third second of the 20 second backoff after a second failure.\<close>

theorem shutdown_during_backoff_witness:
  "actions (main_loop 1 runner0
      [failing\<lparr>sleep_ticks := [Quiet, Quiet, SigTerm, Quiet]\<rparr>, running [CoreReturned]])
     = [Backoff 20 3]
   \<and> ending (main_loop 1 runner0
      [failing\<lparr>sleep_ticks := [Quiet, Quiet, SigTerm, Quiet]\<rparr>, running [CoreReturned]])
     = Exited 0"
proof -
  have r: "\<not> shutdown_event runner0" "\<not> core_alive runner0"
    by (simp_all add: runner0_def)
  have c: "core_file (failing\<lparr>sleep_ticks := [Quiet, Quiet, SigTerm, Quiet]\<rparr>) \<noteq> Runnable"
    "sleep_ticks (failing\<lparr>sleep_ticks := [Quiet, Quiet, SigTerm, Quiet]\<rparr>)
       = [Quiet, Quiet] @ SigTerm # [Quiet]"
    "SigTerm \<notin> set [Quiet, Quiet]"
    by (simp_all add: failing_def)
  have n: "Suc 1 < max_consecutive_failures" "length [Quiet, Quiet] < min (10 * 2 ^ 1) 60"
    by (simp_all add: max_consecutive_failures_def)
  from shutdown_during_backoff [OF r c(1) n(1) c(2,3) n(2), of "[running [CoreReturned]]"]
  show ?thesis by (simp del: main_loop.simps)
qed

end
